theory Spec2Isabelle
  imports Main "HOL-Library.Word"
begin

section \<open>The replicated log of go-raft (log.go)\<close>

text \<open>
  A shallow embedding of \<^verbatim>\<open>src/github.com/benbjohnson/go-raft/log.go\<close>.
  Go's \<^verbatim>\<open>uint64\<close> is \<open>64 word\<close>, so that \<open>index - 1 - startIndex\<close> wraps
  around exactly as it does in Go. A slice is a list; an index or slice expression
  out of range is a run-time panic, written as a value. A method that returns an
  \<^verbatim>\<open>error\<close> has mutated the log in place by then, so the model returns the
  state together with the optional error.
\<close>

type_synonym uint64 = "64 word"

subsection \<open>Data\<close>

text \<open>
  \<^verbatim>\<open>LogEntry\<close> is declared in another file of the package; \<^verbatim>\<open>log.go\<close> reads its
  fields \<^verbatim>\<open>Index\<close>, \<^verbatim>\<open>Term\<close> and \<^verbatim>\<open>Command\<close>. The command type \<open>'c\<close> is opaque.
\<close>

record 'c LogEntry =
  Index :: uint64
  Term :: uint64
  Command :: 'c

text \<open>The errors the log returns (the formatted messages are dropped), and an
  error that comes from the operating system, the encoder or the state machine.\<close>

datatype error =
    LogNotOpen
  | EarlierTerm
  | EarlierIndex
  | CommitOutOfRange
  | AlreadyCommitted
  | IndexDoesNotExist
  | TermMismatch
  | External string

text \<open>Run-time panics: an index or a slice bound out of range.\<close>

datatype panic = IndexOutOfRange | SliceOutOfRange

text \<open>\<^verbatim>\<open>logResult\<close>: what the apply callback returned for one entry.\<close>

record 'v logResult =
  returnValue :: 'v
  err :: "error option"

text \<open>
  The \<^verbatim>\<open>Log\<close> struct, without its mutex. \<open>'f\<close> is an open \<^verbatim>\<open>*os.File\<close>
  (\<open>None\<close> is the nil handle) and a nil \<^verbatim>\<open>*logResult\<close> is \<open>None\<close>. \<open>'w\<close> is
  everything outside the struct that the calls of the log change: the disk and
  the state machine behind \<^verbatim>\<open>ApplyFunc\<close>. The callback is taken to be set.
\<close>

record ('c, 'v, 'f, 'w) Log =
  ApplyFunc :: "'c \<Rightarrow> 'w \<Rightarrow> 'v logResult \<times> 'w"
  file' :: "'f option"
  path :: string
  entries :: "'c LogEntry list"
  results :: "'v logResult option list"
  commitIndex :: uint64
  startIndex :: uint64
  startTerm :: uint64

text \<open>
  The calls that leave the package: \<^verbatim>\<open>entry.encode(w)\<close>, whose source is not
  in \<^verbatim>\<open>log.go\<close>, and the \<^verbatim>\<open>os\<close> functions. Each one transforms the outside world
  and may fail; nothing else is assumed about them.
\<close>

record ('c, 'f, 'w) sys =
  encode :: "'c LogEntry \<Rightarrow> 'f option \<Rightarrow> 'w \<Rightarrow> error option \<times> 'w"
  OpenFile :: "string \<Rightarrow> 'w \<Rightarrow> (error + 'f) \<times> 'w"
  Close :: "'f option \<Rightarrow> 'w \<Rightarrow> 'w"
  Remove :: "string \<Rightarrow> 'w \<Rightarrow> error option \<times> 'w"
  Rename :: "string \<Rightarrow> string \<Rightarrow> 'w \<Rightarrow> error option \<times> 'w"

subsection \<open>Index and slice expressions\<close>

text \<open>\<^verbatim>\<open>xs[i]\<close>, \<^verbatim>\<open>xs[lo:]\<close> and \<^verbatim>\<open>xs[0:hi]\<close> with a \<^verbatim>\<open>uint64\<close> operand. The model
  has no capacity beyond the length of a slice.\<close>

definition elemAt :: "'a list \<Rightarrow> uint64 \<Rightarrow> panic + 'a" where
  "elemAt xs i = (if unat i < length xs then Inr (xs ! unat i) else Inl IndexOutOfRange)"

definition sliceFrom :: "'a list \<Rightarrow> uint64 \<Rightarrow> panic + 'a list" where
  "sliceFrom xs lo = (if unat lo \<le> length xs then Inr (drop (unat lo) xs) else Inl SliceOutOfRange)"

definition sliceTo :: "'a list \<Rightarrow> uint64 \<Rightarrow> panic + 'a list" where
  "sliceTo xs hi = (if unat hi \<le> length xs then Inr (take (unat hi) xs) else Inl SliceOutOfRange)"

definition len :: "'a list \<Rightarrow> uint64" where
  "len xs = of_nat (length xs)"

subsection \<open>Accessors\<close>

definition CommitIndex :: "('c, 'v, 'f, 'w) Log \<Rightarrow> uint64" where
  "CommitIndex l = commitIndex l"

definition internalCurrentIndex :: "('c, 'v, 'f, 'w) Log \<Rightarrow> uint64" where
  "internalCurrentIndex l =
     (if length (entries l) = 0 then startIndex l
      else Index (entries l ! (length (entries l) - 1)))"

definition currentIndex :: "('c, 'v, 'f, 'w) Log \<Rightarrow> uint64" where
  "currentIndex l =
     (if length (entries l) = 0 then startIndex l
      else Index (entries l ! (length (entries l) - 1)))"

definition nextIndex :: "('c, 'v, 'f, 'w) Log \<Rightarrow> uint64" where
  "nextIndex l = currentIndex l + 1"

definition isEmpty :: "('c, 'v, 'f, 'w) Log \<Rightarrow> bool" where
  "isEmpty l \<longleftrightarrow> length (entries l) = 0 \<and> startIndex l = 0"

definition currentTerm :: "('c, 'v, 'f, 'w) Log \<Rightarrow> uint64" where
  "currentTerm l =
     (if length (entries l) = 0 then startTerm l
      else Term (entries l ! (length (entries l) - 1)))"

subsection \<open>close\<close>

definition close ::
  "('c, 'f, 'w) sys \<Rightarrow> ('c, 'v, 'f, 'w) Log \<times> 'w \<Rightarrow> ('c, 'v, 'f, 'w) Log \<times> 'w" where
  "close os st =
     (case st of (l, w) \<Rightarrow>
        (let (l1, w1) = (if file' l \<noteq> None then (l\<lparr>file' := None\<rparr>, Close os (file' l) w)
                         else (l, w))
         in (l1\<lparr>entries := [], results := []\<rparr>, w1)))"

subsection \<open>getEntry\<close>

text \<open>\<open>Inr None\<close> is the nil entry.\<close>

definition getEntry ::
  "uint64 \<Rightarrow> ('c, 'v, 'f, 'w) Log \<Rightarrow> panic + 'c LogEntry option" where
  "getEntry index l =
     (if index \<le> startIndex l \<or> index > startIndex l + len (entries l) then Inr None
      else (case elemAt (entries l) (index - 1) of
              Inl p \<Rightarrow> Inl p
            | Inr e \<Rightarrow> Inr (Some e)))"

definition containsEntry ::
  "uint64 \<Rightarrow> uint64 \<Rightarrow> ('c, 'v, 'f, 'w) Log \<Rightarrow> panic + bool" where
  "containsEntry index term l =
     (case getEntry index l of
        Inl p \<Rightarrow> Inl p
      | Inr None \<Rightarrow> Inr False
      | Inr (Some entry) \<Rightarrow> Inr (Term entry = term))"

subsection \<open>Commit\<close>


text \<open>
  One pass through the body of the loop of \<^verbatim>\<open>setCommitIndex\<close>, for the loop
  variable \<open>i\<close>: the entry is looked up, encoded to the file, the commit index
  is set to its index, the callback is run and its result stored.
\<close>

definition commitEntry ::
  "('c, 'f, 'w) sys \<Rightarrow> uint64 \<Rightarrow> ('c, 'v, 'f, 'w) Log \<times> 'w \<Rightarrow>
     panic + error option \<times> ('c, 'v, 'f, 'w) Log \<times> 'w" where
  "commitEntry os i st =
     (case st of (l, w) \<Rightarrow>
        (let entryIndex = i - 1 - startIndex l in
         case elemAt (entries l) entryIndex of
           Inl p \<Rightarrow> Inl p
         | Inr entry \<Rightarrow>
             (case encode os entry (file' l) w of
                (Some e, w1) \<Rightarrow> Inr (Some e, l, w1)
              | (None, w1) \<Rightarrow>
                  (let l1 = l\<lparr>commitIndex := Index entry\<rparr>;
                       (r, w2) = ApplyFunc l1 (Command entry) w1
                   in if unat entryIndex < length (results l1)
                      then Inr (None, l1\<lparr>results := (results l1)[unat entryIndex := Some r]\<rparr>, w2)
                      else Inl IndexOutOfRange))))"

text \<open>
  The loop \<^verbatim>\<open>for i := l.commitIndex + 1; i <= index; i++\<close>. With \<open>index\<close> the
  largest \<^verbatim>\<open>uint64\<close> the condition never fails, so the loop is a partial function:
  \<open>None\<close> is a run that does not end.
\<close>

partial_function (option) commitLoop ::
  "('c, 'f, 'w) sys \<Rightarrow> uint64 \<Rightarrow> uint64 \<Rightarrow> ('c, 'v, 'f, 'w) Log \<times> 'w \<Rightarrow>
     (panic + error option \<times> ('c, 'v, 'f, 'w) Log \<times> 'w) option" where
  "commitLoop os index i st =
     (if i \<le> index then
        (case commitEntry os i st of
           Inl p \<Rightarrow> Some (Inl p)
         | Inr (Some e, st1) \<Rightarrow> Some (Inr (Some e, st1))
         | Inr (None, st1) \<Rightarrow> commitLoop os index (i + 1) st1)
      else Some (Inr (None, st)))"

declare commitLoop.simps [code]

definition setCommitIndex ::
  "('c, 'f, 'w) sys \<Rightarrow> uint64 \<Rightarrow> ('c, 'v, 'f, 'w) Log \<times> 'w \<Rightarrow>
     (panic + error option \<times> ('c, 'v, 'f, 'w) Log \<times> 'w) option" where
  "setCommitIndex os index st =
     (case st of (l, w) \<Rightarrow>
        if index > startIndex l + len (entries l) then Some (Inr (Some CommitOutOfRange, l, w))
        else if index < commitIndex l then Some (Inr (None, l, w))
        else commitLoop os index (commitIndex l + 1) (l, w))"

subsection \<open>Truncation\<close>

definition truncate ::
  "uint64 \<Rightarrow> uint64 \<Rightarrow> ('c, 'v, 'f, 'w) Log \<Rightarrow> panic + error option \<times> ('c, 'v, 'f, 'w) Log" where
  "truncate index term l =
     (if index < commitIndex l then Inr (Some AlreadyCommitted, l)
      else if index > startIndex l + len (entries l) then Inr (Some IndexDoesNotExist, l)
      else if index = startIndex l then Inr (None, l\<lparr>entries := []\<rparr>)
      else (case elemAt (entries l) (index - startIndex l - 1) of
              Inl p \<Rightarrow> Inl p
            | Inr entry \<Rightarrow>
                if length (entries l) > 0 \<and> Term entry \<noteq> term then Inr (Some TermMismatch, l)
                else if index < startIndex l + len (entries l)
                then (case sliceTo (entries l) (index - startIndex l) of
                        Inl p \<Rightarrow> Inl p
                      | Inr es \<Rightarrow> Inr (None, l\<lparr>entries := es\<rparr>))
                else Inr (None, l)))"

subsection \<open>Append\<close>

definition appendEntry ::
  "'c LogEntry \<Rightarrow> ('c, 'v, 'f, 'w) Log \<Rightarrow> error option \<times> ('c, 'v, 'f, 'w) Log" where
  "appendEntry entry l =
     (if file' l = None then (Some LogNotOpen, l)
      else if length (entries l) > 0 \<and>
              Term entry < Term (entries l ! (length (entries l) - 1))
      then (Some EarlierTerm, l)
      else if length (entries l) > 0 \<and>
              Term entry = Term (entries l ! (length (entries l) - 1)) \<and>
              Index entry \<le> Index (entries l ! (length (entries l) - 1))
      then (Some EarlierIndex, l)
      else (None, l\<lparr>entries := entries l @ [entry], results := results l @ [None]\<rparr>))"


subsection \<open>Compaction\<close>

text \<open>The loop of \<^verbatim>\<open>compact\<close> that encodes the kept entries into the new file.\<close>

fun encodeAll ::
  "('c, 'f, 'w) sys \<Rightarrow> 'c LogEntry list \<Rightarrow> 'f \<Rightarrow> 'w \<Rightarrow> error option \<times> 'w" where
  "encodeAll os [] f w = (None, w)"
| "encodeAll os (entry # rest) f w =
     (case encode os entry (Some f) w of
        (Some e, w1) \<Rightarrow> (Some e, w1)
      | (None, w1) \<Rightarrow> encodeAll os rest f w1)"

definition compact ::
  "('c, 'f, 'w) sys \<Rightarrow> uint64 \<Rightarrow> uint64 \<Rightarrow> ('c, 'v, 'f, 'w) Log \<times> 'w \<Rightarrow>
     panic + error option \<times> ('c, 'v, 'f, 'w) Log \<times> 'w" where
  "compact os index term st =
     (case st of (l, w) \<Rightarrow>
        (case (if index \<ge> internalCurrentIndex l then Inr []
               else sliceFrom (entries l) (index - startIndex l)) of
           Inl p \<Rightarrow> Inl p
         | Inr kept \<Rightarrow>
             (case OpenFile os (path l @ ''.new'') w of
                (Inl e, w1) \<Rightarrow> Inr (Some e, l, w1)
              | (Inr f, w1) \<Rightarrow>
                  (case encodeAll os kept f w1 of
                     (Some e, w2) \<Rightarrow> Inr (Some e, l, w2)
                   | (None, w2) \<Rightarrow>
                       (case Remove os (path l) (Close os (file' l) w2) of
                          (Some e, w3) \<Rightarrow> Inr (Some e, l, w3)
                        | (None, w3) \<Rightarrow>
                            (case Rename os (path l @ ''.new'') (path l) w3 of
                               (Some e, w4) \<Rightarrow> Inr (Some e, l, w4)
                             | (None, w4) \<Rightarrow>
                                 Inr (None,
                                      l\<lparr>file' := Some f, entries := kept,
                                        startIndex := index, startTerm := term\<rparr>,
                                      w4)))))))"

subsection \<open>The commit protocol in the words of the specification\<close>


subsection \<open>Invariants of the data model\<close>



text \<open>\<^verbatim>\<open>results\<close> is a parallel sequence to \<^verbatim>\<open>entries\<close>.\<close>

definition parallelResults :: "('c, 'v, 'f, 'w) Log \<Rightarrow> bool" where
  "parallelResults l \<longleftrightarrow> length (results l) = length (entries l)"

subsection \<open>A concrete outside world\<close>

text \<open>
  For running the model: the outside world is the trace of the calls that left
  the log, in the order they were made. Commands are strings, the callback
  returns the length of the command, a file is known by its path.
\<close>

datatype event =
    Encoded uint64 uint64 string
  | Applied string
  | Opened string
  | Closed
  | Removed string
  | Renamed string string

definition newLogEntry :: "uint64 \<Rightarrow> uint64 \<Rightarrow> 'c \<Rightarrow> 'c LogEntry" where
  "newLogEntry index term command = \<lparr>Index = index, Term = term, Command = command\<rparr>"

definition traceApply :: "string \<Rightarrow> event list \<Rightarrow> nat logResult \<times> event list" where
  "traceApply c w = (\<lparr>returnValue = length c, err = None\<rparr>, w @ [Applied c])"

definition traceEncode ::
  "string LogEntry \<Rightarrow> string option \<Rightarrow> event list \<Rightarrow> error option \<times> event list" where
  "traceEncode e f w = (None, w @ [Encoded (Index e) (Term e) (Command e)])"

text \<open>An encoder whose disk is full when it reaches the entry with index \<open>n\<close>.\<close>

definition fullAt ::
  "uint64 \<Rightarrow> string LogEntry \<Rightarrow> string option \<Rightarrow> event list \<Rightarrow> error option \<times> event list" where
  "fullAt n e f w =
     (if Index e = n then (Some (External ''no space left on device''), w)
      else traceEncode e f w)"

definition traceOpen :: "string \<Rightarrow> event list \<Rightarrow> (error + string) \<times> event list" where
  "traceOpen p w = (Inr p, w @ [Opened p])"

definition traceClose :: "string option \<Rightarrow> event list \<Rightarrow> event list" where
  "traceClose f w = w @ [Closed]"

definition traceRemove :: "string \<Rightarrow> event list \<Rightarrow> error option \<times> event list" where
  "traceRemove p w = (None, w @ [Removed p])"

definition traceRename :: "string \<Rightarrow> string \<Rightarrow> event list \<Rightarrow> error option \<times> event list" where
  "traceRename p q w = (None, w @ [Renamed p q])"

definition traceSys :: "(string, string, event list) sys" where
  "traceSys = \<lparr>encode = traceEncode, OpenFile = traceOpen, Close = traceClose,
                Remove = traceRemove, Rename = traceRename\<rparr>"

definition fullSys :: "uint64 \<Rightarrow> (string, string, event list) sys" where
  "fullSys n = traceSys\<lparr>encode := fullAt n\<rparr>"

text \<open>An open log on \<^verbatim>\<open>raft.log\<close> with the given window.\<close>

definition openLog ::
  "string LogEntry list \<Rightarrow> nat logResult option list \<Rightarrow> uint64 \<Rightarrow> uint64 \<Rightarrow> uint64 \<Rightarrow>
     (string, nat, string, event list) Log" where
  "openLog es rs c s t =
     \<lparr>ApplyFunc = traceApply, file' = Some ''raft.log'', path = ''raft.log'',
      entries = es, results = rs, commitIndex = c, startIndex = s, startTerm = t\<rparr>"

text \<open>The entries of the scenario of the specification: \<open>A\<close> and \<open>B\<close> of term 1 and
  \<open>C\<close> of term 2, at the indices 1, 2 and 3.\<close>

definition entryA :: "string LogEntry" where "entryA = newLogEntry 1 1 ''A''"
definition entryB :: "string LogEntry" where "entryB = newLogEntry 2 1 ''B''"
definition entryC :: "string LogEntry" where "entryC = newLogEntry 3 2 ''C''"

definition applied :: "string \<Rightarrow> nat logResult option" where
  "applied c = Some \<lparr>returnValue = length c, err = None\<rparr>"

text \<open>The log of the scenario before anything is committed, the same log with
  every entry committed and applied, and an open log that holds nothing.\<close>

definition scenario :: "(string, nat, string, event list) Log" where
  "scenario = openLog [entryA, entryB, entryC] [None, None, None] 0 0 0"

definition committed :: "(string, nat, string, event list) Log" where
  "committed = openLog [entryA, entryB, entryC] [applied ''A'', applied ''B'', applied ''C''] 3 0 0"

definition fresh :: "(string, nat, string, event list) Log" where
  "fresh = openLog [] [] 0 0 0"

lemmas model_defs = elemAt_def sliceFrom_def sliceTo_def len_def internalCurrentIndex_def
  currentIndex_def CommitIndex_def isEmpty_def

lemmas world_defs = newLogEntry_def traceApply_def traceEncode_def fullAt_def traceOpen_def
  traceClose_def traceRemove_def traceRename_def traceSys_def fullSys_def openLog_def
  entryA_def entryB_def entryC_def applied_def scenario_def committed_def fresh_def

section \<open>Arithmetic of the offsets\<close>


lemma unat_offset': "unat s < unat (i::uint64) \<Longrightarrow> unat (i - s - 1) = unat i - unat s - 1"
  by unat_arith



section \<open>Consecutive indices\<close>



section \<open>getEntry\<close>

text \<open>
  C1 (the code departs from the claim). The claim: \<^verbatim>\<open>getEntry(index)\<close> is nil exactly
  outside the window \<open>(startIndex, startIndex + len(entries)]\<close> and inside it
  returns the entry stored at offset \<open>index - startIndex - 1\<close>, also when
  \<open>startIndex > 0\<close>. The guard of the source is the one of the claim, but the read is
  \<^verbatim>\<open>l.entries[index-1]\<close>: the offset is not reduced by \<open>startIndex\<close>. With
  \<open>startIndex = 1\<close> and the entries of the indices 2 and 3 in memory,
  \<^verbatim>\<open>getEntry(2)\<close> returns the entry of index 3 instead of the one at offset 0, and
  \<^verbatim>\<open>getEntry(3)\<close> reads offset 2 of a slice of length 2 and panics.
\<close>

theorem getEntry_ignores_startIndex:
  "getEntry 2 (openLog [entryB, entryC] [None, None] 1 1 1) = Inr (Some entryC) \<and>
   elemAt [entryB, entryC] (2 - 1 - 1) = Inr entryB \<and>
   entryB \<noteq> entryC \<and>
   getEntry 3 (openLog [entryB, entryC] [None, None] 1 1 1) = Inl IndexOutOfRange"
  by (simp add: getEntry_def model_defs world_defs word_le_nat_alt word_less_nat_alt)

section \<open>compact\<close>

text \<open>
  C2 (the code departs from the claim). The claim: after a successful
  \<^verbatim>\<open>compact(index, term)\<close> every entry with a larger index that was in the log is
  still returned by \<^verbatim>\<open>getEntry\<close> at its own index. Compacting the committed
  log of the scenario at index 1 succeeds and keeps the entries of the indices
  2 and 3; afterwards \<^verbatim>\<open>getEntry(2)\<close> returns the entry of index 3 and
  \<^verbatim>\<open>getEntry(3)\<close> panics, while \<^verbatim>\<open>getEntry(1)\<close> is nil as the claim says. The
  cause is the read \<^verbatim>\<open>l.entries[index-1]\<close> of \<^verbatim>\<open>getEntry\<close>.
\<close>

theorem compact_then_getEntry:
  "compact traceSys 1 1 (committed, []) =
     Inr (None,
          (openLog [entryB, entryC] [applied ''A'', applied ''B'', applied ''C''] 3 1 1)
            \<lparr>file' := Some ''raft.log.new''\<rparr>,
          [Opened ''raft.log.new'', Encoded 2 1 ''B'', Encoded 3 2 ''C'', Closed,
           Removed ''raft.log'', Renamed ''raft.log.new'' ''raft.log'']) \<and>
   getEntry 1 ((openLog [entryB, entryC] [applied ''A'', applied ''B'', applied ''C''] 3 1 1)
                 \<lparr>file' := Some ''raft.log.new''\<rparr>) = Inr None \<and>
   getEntry 2 ((openLog [entryB, entryC] [applied ''A'', applied ''B'', applied ''C''] 3 1 1)
                 \<lparr>file' := Some ''raft.log.new''\<rparr>) = Inr (Some entryC) \<and>
   Index entryC = 3 \<and>
   getEntry 3 ((openLog [entryB, entryC] [applied ''A'', applied ''B'', applied ''C''] 3 1 1)
                 \<lparr>file' := Some ''raft.log.new''\<rparr>) = Inl IndexOutOfRange"
  by (simp add: compact_def getEntry_def model_defs world_defs word_le_nat_alt word_less_nat_alt)

section \<open>setCommitIndex\<close>






text \<open>
  C4 (amended). The claim: for every log state and every \<open>i < commitIndex\<close>,
  \<^verbatim>\<open>setCommitIndex(i)\<close> returns no error and changes nothing. The source tests
  \<open>i > startIndex + len(entries)\<close> before it tests \<open>i < commitIndex\<close>. Amended: for
  every log state and every \<open>i < commitIndex\<close> the call leaves the whole state as
  it was, runs no callback and writes nothing; it returns no error when
  \<open>i \<le> startIndex + len(entries)\<close>, and the out-of-range error otherwise.
\<close>

theorem setCommitIndex_stale:
  assumes "index < commitIndex l"
  shows "setCommitIndex os index (l, w) =
           Some (Inr (if index > startIndex l + len (entries l)
                      then Some CommitOutOfRange else None, l, w))"
  using assms by (simp add: setCommitIndex_def)

theorem setCommitIndex_stale_witness:
  "1 < commitIndex committed \<and>
   setCommitIndex traceSys 1 (committed, []) = Some (Inr (None, committed, []))"
  using setCommitIndex_stale [of 1 committed traceSys "[]"]
  by (simp add: world_defs len_def word_less_nat_alt)

text \<open>After \<^verbatim>\<open>close()\<close> the committed log of the scenario has no entry in memory
  and still \<open>commitIndex = 3\<close>: \<^verbatim>\<open>setCommitIndex(1)\<close> returns the out-of-range
  error although \<open>1 < commitIndex\<close>.\<close>

theorem setCommitIndex_stale_counterexample:
  "close traceSys (committed, []) = ((openLog [] [] 3 0 0)\<lparr>file' := None\<rparr>, [Closed]) \<and>
   1 < commitIndex ((openLog [] [] 3 0 0)\<lparr>file' := None\<rparr>) \<and>
   setCommitIndex traceSys 1 ((openLog [] [] 3 0 0)\<lparr>file' := None\<rparr>, [Closed]) =
     Some (Inr (Some CommitOutOfRange, (openLog [] [] 3 0 0)\<lparr>file' := None\<rparr>, [Closed]))"
  by (simp add: close_def setCommitIndex_def model_defs world_defs
        word_le_nat_alt word_less_nat_alt)

section \<open>The result slots\<close>

text \<open>
  C5 (the code departs from the claim). The claim: every operation keeps
  \<^verbatim>\<open>results\<close> parallel to \<^verbatim>\<open>entries\<close>, with \<open>len(results) = len(entries)\<close> and the
  k-th slot belonging to the k-th in-memory entry. \<^verbatim>\<open>appendEntry\<close> grows both and
  \<^verbatim>\<open>close\<close> empties both, but \<^verbatim>\<open>truncate\<close> and \<^verbatim>\<open>compact\<close> assign
  \<^verbatim>\<open>l.entries\<close> alone. Truncating the scenario at index 1 leaves one entry and
  three slots. Compacting the committed log at index 1 leaves the entries of the
  indices 2 and 3 beside three slots, the first of which still holds the result
  of the entry of index 1.
\<close>

theorem results_not_parallel:
  "parallelResults scenario \<and>
   truncate 1 1 scenario = Inr (None, openLog [entryA] [None, None, None] 0 0 0) \<and>
   \<not> parallelResults (openLog [entryA] [None, None, None] 0 0 0) \<and>
   parallelResults committed \<and>
   compact traceSys 1 1 (committed, []) =
     Inr (None,
          (openLog [entryB, entryC] [applied ''A'', applied ''B'', applied ''C''] 3 1 1)
            \<lparr>file' := Some ''raft.log.new''\<rparr>,
          [Opened ''raft.log.new'', Encoded 2 1 ''B'', Encoded 3 2 ''C'', Closed,
           Removed ''raft.log'', Renamed ''raft.log.new'' ''raft.log'']) \<and>
   \<not> parallelResults
        ((openLog [entryB, entryC] [applied ''A'', applied ''B'', applied ''C''] 3 1 1)
           \<lparr>file' := Some ''raft.log.new''\<rparr>)"
  by (simp add: parallelResults_def truncate_def compact_def model_defs world_defs
        word_le_nat_alt word_less_nat_alt)

section \<open>The commit index inside the window\<close>













section \<open>appendEntry and truncate\<close>

text \<open>
  C7. For every open log with at least one entry in memory, the last one of term
  \<open>t\<close> and index \<open>i\<close>: \<^verbatim>\<open>appendEntry\<close> on an entry of a term below \<open>t\<close>, or of the
  term \<open>t\<close> and an index at most \<open>i\<close>, returns an error and leaves the log as it
  was (its entries, results and commit index among the rest); an entry of the term
  \<open>t\<close> and an index above \<open>i\<close>, or of a term above \<open>t\<close>, is appended, with a nil
  result slot.
\<close>

theorem appendEntry_monotonic:
  assumes "file' l \<noteq> None" and "entries l \<noteq> []"
  shows "(Term e < Term (last (entries l)) \<or>
          (Term e = Term (last (entries l)) \<and> Index e \<le> Index (last (entries l)))
            \<longrightarrow> (\<exists>x. appendEntry e l = (Some x, l))) \<and>
         ((Term e = Term (last (entries l)) \<and> Index e > Index (last (entries l))) \<or>
          Term e > Term (last (entries l))
            \<longrightarrow> appendEntry e l =
                  (None, l\<lparr>entries := entries l @ [e], results := results l @ [None]\<rparr>))"
  using assms by (auto simp: appendEntry_def last_conv_nth)

text \<open>On the scenario, whose last entry has term 2 and index 3: an entry of term 1
  and an entry of term 2 and index 3 are refused, an entry of term 2 and index 4
  is appended.\<close>

theorem appendEntry_monotonic_witness:
  "file' scenario \<noteq> None \<and> entries scenario \<noteq> [] \<and>
   Term (last (entries scenario)) = 2 \<and> Index (last (entries scenario)) = 3 \<and>
   appendEntry (newLogEntry 4 1 ''D'') scenario = (Some EarlierTerm, scenario) \<and>
   appendEntry (newLogEntry 3 2 ''D'') scenario = (Some EarlierIndex, scenario) \<and>
   appendEntry (newLogEntry 4 2 ''D'') scenario =
     (None, openLog [entryA, entryB, entryC, newLogEntry 4 2 ''D''] [None, None, None, None] 0 0 0)"
  using appendEntry_monotonic [of scenario "newLogEntry 4 1 ''D''"]
    appendEntry_monotonic [of scenario "newLogEntry 3 2 ''D''"]
    appendEntry_monotonic [of scenario "newLogEntry 4 2 ''D''"]
  by (simp add: appendEntry_def world_defs word_le_nat_alt word_less_nat_alt)

text \<open>
  C8. \<^verbatim>\<open>truncate(index, term)\<close> returns an error and leaves the log as it was
  whenever \<open>index < commitIndex\<close>, and whenever
  \<open>startIndex < index \<le> startIndex + len(entries)\<close> and the entry at \<open>index\<close>, the
  one at offset \<open>index - startIndex - 1\<close>, has another term; nothing is discarded.
\<close>

theorem truncate_rejects:
  "(index < commitIndex l \<longrightarrow> truncate index term l = Inr (Some AlreadyCommitted, l)) \<and>
   (unat (startIndex l) < unat index \<and> unat index \<le> unat (startIndex l) + length (entries l) \<and>
    Term (entries l ! (unat index - unat (startIndex l) - 1)) \<noteq> term
      \<longrightarrow> (\<exists>x. truncate index term l = Inr (Some x, l)))"
proof (intro conjI impI)
  assume "index < commitIndex l"
  then show "truncate index term l = Inr (Some AlreadyCommitted, l)"
    by (simp add: truncate_def)
next
  assume a: "unat (startIndex l) < unat index \<and>
    unat index \<le> unat (startIndex l) + length (entries l) \<and>
    Term (entries l ! (unat index - unat (startIndex l) - 1)) \<noteq> term"
  then have k: "unat (index - startIndex l - 1) = unat index - unat (startIndex l) - 1"
    by (simp add: unat_offset')
  from a have lt: "unat index - unat (startIndex l) - 1 < length (entries l)" by arith
  from a have ne: "index \<noteq> startIndex l" by auto
  from a lt have pos: "length (entries l) > 0" by arith
  show "\<exists>x. truncate index term l = Inr (Some x, l)"
    using a k lt ne pos by (simp add: truncate_def elemAt_def)
qed

text \<open>On the committed log, truncating at index 2 is refused; on the scenario,
  truncating at index 2 with term 7 is refused, the entry there having term 1.\<close>

theorem truncate_rejects_witness:
  "2 < commitIndex committed \<and>
   truncate 2 1 committed = Inr (Some AlreadyCommitted, committed) \<and>
   unat (startIndex scenario) < unat (2::uint64) \<and>
   unat (2::uint64) \<le> unat (startIndex scenario) + length (entries scenario) \<and>
   Term (entries scenario ! (unat (2::uint64) - unat (startIndex scenario) - 1)) \<noteq> 7 \<and>
   truncate 2 7 scenario = Inr (Some TermMismatch, scenario)"
  using truncate_rejects [of 2 committed 1] truncate_rejects [of 2 scenario 7]
  by (simp add: truncate_def model_defs world_defs word_le_nat_alt word_less_nat_alt)

text \<open>
  C9. For every open log whose last in-memory entry has term \<open>t\<close>, \<^verbatim>\<open>appendEntry\<close>
  accepts every entry of a term above \<open>t\<close>, whatever its index: the index is
  compared only when the terms are equal.
\<close>

theorem appendEntry_later_term_any_index:
  assumes "file' l \<noteq> None" and "entries l \<noteq> []"
    and "Term (last (entries l)) < Term e"
  shows "appendEntry e l =
           (None, l\<lparr>entries := entries l @ [e], results := results l @ [None]\<rparr>)"
  using assms by (auto simp: appendEntry_def last_conv_nth)

text \<open>The input the claim speaks of: on the scenario, whose last entry has index 3,
  an entry of term 3 and index 1 is appended.\<close>

theorem appendEntry_later_term_any_index_witness:
  "file' scenario \<noteq> None \<and> entries scenario \<noteq> [] \<and>
   Term (last (entries scenario)) < Term (newLogEntry 1 3 ''D'') \<and>
   Index (newLogEntry 1 3 ''D'') \<le> Index (last (entries scenario)) \<and>
   appendEntry (newLogEntry 1 3 ''D'') scenario =
     (None, openLog [entryA, entryB, entryC, newLogEntry 1 3 ''D''] [None, None, None, None] 0 0 0)"
  using appendEntry_later_term_any_index [of scenario "newLogEntry 1 3 ''D''"]
  by (simp add: world_defs word_le_nat_alt word_less_nat_alt)

section \<open>close\<close>

text \<open>
  C10. \<^verbatim>\<open>close()\<close> empties the entries and the results and drops the file handle,
  and leaves \<open>commitIndex\<close>, \<open>startIndex\<close> and \<open>startTerm\<close> as they were: afterwards
  \<^verbatim>\<open>CommitIndex()\<close> is the commit index from before, \<^verbatim>\<open>currentIndex()\<close> is the old
  \<open>startIndex\<close>, and \<^verbatim>\<open>isEmpty()\<close> is false whenever \<open>startIndex > 0\<close>.
\<close>

theorem close_keeps_indices:
  "entries (fst (close os (l, w))) = [] \<and>
   results (fst (close os (l, w))) = [] \<and>
   file' (fst (close os (l, w))) = None \<and>
   commitIndex (fst (close os (l, w))) = commitIndex l \<and>
   startIndex (fst (close os (l, w))) = startIndex l \<and>
   startTerm (fst (close os (l, w))) = startTerm l \<and>
   CommitIndex (fst (close os (l, w))) = CommitIndex l \<and>
   currentIndex (fst (close os (l, w))) = startIndex l \<and>
   (startIndex l > 0 \<longrightarrow> \<not> isEmpty (fst (close os (l, w))))"
  by (auto simp: close_def CommitIndex_def currentIndex_def isEmpty_def)

text \<open>A log compacted at index 2 that holds the committed entry of index 3, then
  closed.\<close>

theorem close_keeps_indices_witness:
  "startIndex (openLog [entryC] [applied ''C''] 3 2 1) > 0 \<and>
   close traceSys (openLog [entryC] [applied ''C''] 3 2 1, []) =
     ((openLog [] [] 3 2 1)\<lparr>file' := None\<rparr>, [Closed]) \<and>
   CommitIndex (fst (close traceSys (openLog [entryC] [applied ''C''] 3 2 1, []))) = 3 \<and>
   currentIndex (fst (close traceSys (openLog [entryC] [applied ''C''] 3 2 1, []))) = 2 \<and>
   \<not> isEmpty (fst (close traceSys (openLog [entryC] [applied ''C''] 3 2 1, [])))"
  using close_keeps_indices [of traceSys "openLog [entryC] [applied ''C''] 3 2 1" "[]"]
  by (simp add: close_def model_defs world_defs word_le_nat_alt word_less_nat_alt)

end
